theory Spec2Isabelle
  imports Main "HOL-Library.Word" "HOL-Library.Signed_Division" "HOL-Library.Sublist"
begin

section \<open>Intermediate representation (ir.h)\<close>

text \<open>
  The C++ type \<open>int\<close> is a 32-bit two's complement integer.  It is modelled as a
  32-bit word read through \<open>sint\<close>.  Signed overflow of \<open>+\<close>, \<open>-\<close> and \<open>*\<close> is
  undefined behaviour in C++; the model wraps around there, which is what the usual targets
  do.  The operators \<open>/\<close> and \<open>%\<close> truncate towards zero (\<open>sdiv\<close>, \<open>smod\<close> on the
  signed values).  They have no result for a zero divisor and for \<open>INT_MIN\<close> by \<open>-1\<close>:
  the division instruction traps there and the process is killed.  \<open>c_div\<close> and
  \<open>c_mod\<close> return \<open>None\<close> on these inputs.  The source guards every use against a
  zero divisor, and only against that.
\<close>

type_synonym cint = "32 word"

definition INT_MIN :: cint where
  "INT_MIN = - 2147483648"

definition c_div :: "cint \<Rightarrow> cint \<Rightarrow> cint option" where
  "c_div a b =
     (if b = 0 \<or> (a = INT_MIN \<and> b = - 1) then None
      else Some (word_of_int (sint a sdiv sint b)))"

definition c_mod :: "cint \<Rightarrow> cint \<Rightarrow> cint option" where
  "c_mod a b =
     (if b = 0 \<or> (a = INT_MIN \<and> b = - 1) then None
      else Some (word_of_int (sint a smod sint b)))"

text \<open>\<open>std::to_string\<close> on an \<open>int\<close>: decimal digits, with a leading minus sign.\<close>

definition digit_char :: "nat \<Rightarrow> char" where
  "digit_char d = ''0123456789'' ! d"

fun to_string_nat :: "nat \<Rightarrow> string" where
  "to_string_nat n =
     (if n < 10 then [digit_char n]
      else to_string_nat (n div 10) @ [digit_char (n mod 10)])"

declare to_string_nat.simps [simp del]

definition to_string :: "int \<Rightarrow> string" where
  "to_string i =
     (if i < 0 then CHR ''-'' # to_string_nat (nat (- i)) else to_string_nat (nat i))"

datatype BinOp = ADD | SUB | MUL | DIV | MOD | EQ | NE | LT | GT | LE | GE | AND | OR

datatype UnOp = NEG | NOT

text \<open>
  \<open>InstrType::CONST\<close> and \<open>Operand::Type::CONST\<close> are written \<open>CONST_INSTR\<close> and
  \<open>OT_CONST\<close> (with \<open>OT_VAR\<close>, \<open>OT_TEMP\<close> beside it).
\<close>

datatype InstrType =
  BIN_OP | UN_OP | ASSIGN | CONST_INSTR | LABEL | GOTO | IF_GOTO | CALL | RETURN | PRINT | NOP

datatype OperandType = OT_VAR | OT_CONST | OT_TEMP

record Operand =
  otype :: OperandType
  name :: string
  ovalue :: cint

text \<open>The three constructors of \<open>Operand\<close>.\<close>

definition Operand_default :: Operand where
  "Operand_default = \<lparr>otype = OT_VAR, name = [], ovalue = 0\<rparr>"

definition Operand_named :: "string \<Rightarrow> OperandType \<Rightarrow> Operand" where
  "Operand_named n t = \<lparr>otype = t, name = n, ovalue = 0\<rparr>"

definition Operand_int :: "cint \<Rightarrow> Operand" where
  "Operand_int v = \<lparr>otype = OT_CONST, name = to_string (sint v), ovalue = v\<rparr>"

definition str :: "Operand \<Rightarrow> string" where
  "str op = name op"

definition isConst :: "Operand \<Rightarrow> bool" where
  "isConst op = (otype op = OT_CONST)"

definition isTemp :: "Operand \<Rightarrow> bool" where
  "isTemp op = (otype op = OT_TEMP)"

definition isVar :: "Operand \<Rightarrow> bool" where
  "isVar op = (otype op = OT_VAR)"

record Instruction =
  itype :: InstrType
  result :: Operand
  op1 :: Operand
  op2 :: Operand
  label :: string
  binOp :: BinOp
  unOp :: UnOp
  args :: "Operand list"
  funcName :: string

definition Instruction_default :: Instruction where
  "Instruction_default =
     \<lparr>itype = NOP, result = Operand_default, op1 = Operand_default, op2 = Operand_default,
      label = [], binOp = ADD, unOp = NEG, args = [], funcName = []\<rparr>"

definition createBinOp :: "Operand \<Rightarrow> BinOp \<Rightarrow> Operand \<Rightarrow> Operand \<Rightarrow> Instruction" where
  "createBinOp res bop a b =
     Instruction_default\<lparr>itype := BIN_OP, result := res, binOp := bop, op1 := a, op2 := b\<rparr>"

definition createUnOp :: "Operand \<Rightarrow> UnOp \<Rightarrow> Operand \<Rightarrow> Instruction" where
  "createUnOp res uop operand =
     Instruction_default\<lparr>itype := UN_OP, result := res, unOp := uop, op1 := operand\<rparr>"

definition createAssign :: "Operand \<Rightarrow> Operand \<Rightarrow> Instruction" where
  "createAssign dst src = Instruction_default\<lparr>itype := ASSIGN, result := dst, op1 := src\<rparr>"

definition createLabel :: "string \<Rightarrow> Instruction" where
  "createLabel lbl = Instruction_default\<lparr>itype := LABEL, label := lbl\<rparr>"

definition createGoto :: "string \<Rightarrow> Instruction" where
  "createGoto lbl = Instruction_default\<lparr>itype := GOTO, label := lbl\<rparr>"

definition createIfGoto :: "Operand \<Rightarrow> string \<Rightarrow> Instruction" where
  "createIfGoto cond lbl = Instruction_default\<lparr>itype := IF_GOTO, op1 := cond, label := lbl\<rparr>"

definition createCall :: "Operand \<Rightarrow> string \<Rightarrow> Operand list \<Rightarrow> Instruction" where
  "createCall res func arguments =
     Instruction_default\<lparr>itype := CALL, result := res, funcName := func, args := arguments\<rparr>"

definition createReturn :: "Operand \<Rightarrow> Instruction" where
  "createReturn v = Instruction_default\<lparr>itype := RETURN, op1 := v\<rparr>"

definition createPrint :: "Operand \<Rightarrow> Instruction" where
  "createPrint v = Instruction_default\<lparr>itype := PRINT, op1 := v\<rparr>"

text \<open>
  \<open>IRProgram\<close>: the instruction vector and the two \<open>unordered_map\<close>s
  (\<open>variableTypes\<close>: 0 is int, 1 is bool).
\<close>

record IRProgram =
  instructions :: "Instruction list"
  variableTypes :: "string \<rightharpoonup> int"
  symbolTable :: "string \<rightharpoonup> int"

definition addInstruction :: "Instruction \<Rightarrow> IRProgram \<Rightarrow> IRProgram" where
  "addInstruction instr p = p\<lparr>instructions := instructions p @ [instr]\<rparr>"

section \<open>Interpreter (interpreter.h)\<close>

text \<open>
  The ways an instruction can fail, and the interpreter object (its field \<open>output\<close> is
  \<open>output_log\<close> here).  The first four are the \<open>std::runtime_error\<close>s the interpreter
  throws.  \<open>UndefinedDivision\<close> is no exception: it marks a division or modulo that has no
  result (\<open>INT_MIN\<close> by \<open>-1\<close>), which kills the process; no \<open>catch\<close> sees it.
\<close>

datatype RuntimeError =
  UndefinedVariable string | DivisionByZero | ModuloByZero | LabelNotFound string
  | UndefinedDivision

record Interpreter =
  variables :: "string \<rightharpoonup> cint"
  output_log :: "string list"
  pc :: int

definition getValue :: "Interpreter \<Rightarrow> Operand \<Rightarrow> RuntimeError + cint" where
  "getValue s op =
     (if isConst op then Inr (ovalue op)
      else if isVar op then
        (case variables s (str op) of
           Some v \<Rightarrow> Inr v
         | None \<Rightarrow> Inl (UndefinedVariable (str op)))
      else Inr 0)"

definition setValue :: "Operand \<Rightarrow> cint \<Rightarrow> Interpreter \<Rightarrow> Interpreter" where
  "setValue op v s =
     (if isVar op then s\<lparr>variables := (variables s)(str op \<mapsto> v)\<rparr> else s)"

definition executeBinOp :: "Instruction \<Rightarrow> Interpreter \<Rightarrow> RuntimeError + Interpreter" where
  "executeBinOp instr s =
     (case getValue s (op1 instr) of
        Inl e \<Rightarrow> Inl e
      | Inr left \<Rightarrow>
     (case getValue s (op2 instr) of
        Inl e \<Rightarrow> Inl e
      | Inr right \<Rightarrow>
     (case (case binOp instr of
              ADD \<Rightarrow> Inr (left + right)
            | SUB \<Rightarrow> Inr (left - right)
            | MUL \<Rightarrow> Inr (left * right)
            | DIV \<Rightarrow>
                if right = 0 then Inl DivisionByZero
                else (case c_div left right of
                        Some q \<Rightarrow> Inr q
                      | None \<Rightarrow> Inl UndefinedDivision)
            | MOD \<Rightarrow>
                if right = 0 then Inl ModuloByZero
                else (case c_mod left right of
                        Some q \<Rightarrow> Inr q
                      | None \<Rightarrow> Inl UndefinedDivision)
            | EQ \<Rightarrow> Inr (if left = right then 1 else 0)
            | NE \<Rightarrow> Inr (if left \<noteq> right then 1 else 0)
            | LT \<Rightarrow> Inr (if sint left < sint right then 1 else 0)
            | GT \<Rightarrow> Inr (if sint left > sint right then 1 else 0)
            | LE \<Rightarrow> Inr (if sint left \<le> sint right then 1 else 0)
            | GE \<Rightarrow> Inr (if sint left \<ge> sint right then 1 else 0)
            | AND \<Rightarrow> Inr (if left \<noteq> 0 \<and> right \<noteq> 0 then 1 else 0)
            | OR \<Rightarrow> Inr (if left \<noteq> 0 \<or> right \<noteq> 0 then 1 else 0)) of
        Inl e \<Rightarrow> Inl e
      | Inr res \<Rightarrow> Inr (setValue (result instr) res s))))"

definition executeUnOp :: "Instruction \<Rightarrow> Interpreter \<Rightarrow> RuntimeError + Interpreter" where
  "executeUnOp instr s =
     (case getValue s (op1 instr) of
        Inl e \<Rightarrow> Inl e
      | Inr operand \<Rightarrow>
          Inr (setValue (result instr)
                 (if unOp instr = NEG then - operand
                  else if unOp instr = NOT then (if operand \<noteq> 0 then 0 else 1)
                  else 0) s))"

definition executeAssign :: "Instruction \<Rightarrow> Interpreter \<Rightarrow> RuntimeError + Interpreter" where
  "executeAssign instr s =
     (case getValue s (op1 instr) of
        Inl e \<Rightarrow> Inl e
      | Inr v \<Rightarrow> Inr (setValue (result instr) v s))"

text \<open>
  \<open>findLabel\<close>: the linear scan from index 0; \<open>findLabelFrom\<close> is the loop, with the
  index \<open>i\<close> of the head of the remaining instructions.
\<close>

fun findLabelFrom :: "Instruction list \<Rightarrow> int \<Rightarrow> string \<Rightarrow> RuntimeError + int" where
  "findLabelFrom [] i lbl = Inl (LabelNotFound lbl)"
| "findLabelFrom (instr # rest) i lbl =
     (if itype instr = LABEL \<and> label instr = lbl then Inr i
      else findLabelFrom rest (i + 1) lbl)"

definition findLabel :: "IRProgram \<Rightarrow> string \<Rightarrow> RuntimeError + int" where
  "findLabel program lbl = findLabelFrom (instructions program) 0 lbl"

text \<open>
  The body of the \<open>switch\<close> in \<open>execute\<close>.  The result is the exception thrown
  (\<open>Inl\<close>), or the state after the case together with a flag that is true when the case
  was \<open>return true\<close>.  \<open>CONST_INSTR\<close> has no case in the source: nothing happens.
\<close>

definition executeInstr ::
  "IRProgram \<Rightarrow> Instruction \<Rightarrow> Interpreter \<Rightarrow> RuntimeError + (bool \<times> Interpreter)" where
  "executeInstr program instr s =
     (case itype instr of
        BIN_OP \<Rightarrow> map_sum id (Pair False) (executeBinOp instr s)
      | UN_OP \<Rightarrow> map_sum id (Pair False) (executeUnOp instr s)
      | ASSIGN \<Rightarrow> map_sum id (Pair False) (executeAssign instr s)
      | LABEL \<Rightarrow> Inr (False, s)
      | GOTO \<Rightarrow>
          (case findLabel program (label instr) of
             Inl e \<Rightarrow> Inl e
           | Inr i \<Rightarrow> Inr (False, s\<lparr>pc := i - 1\<rparr>))
      | IF_GOTO \<Rightarrow>
          (case getValue s (op1 instr) of
             Inl e \<Rightarrow> Inl e
           | Inr condValue \<Rightarrow>
               if condValue = 0 then
                 (case findLabel program (label instr) of
                    Inl e \<Rightarrow> Inl e
                  | Inr i \<Rightarrow> Inr (False, s\<lparr>pc := i - 1\<rparr>))
               else Inr (False, s))
      | PRINT \<Rightarrow>
          (case getValue s (op1 instr) of
             Inl e \<Rightarrow> Inl e
           | Inr v \<Rightarrow> Inr (False, s\<lparr>output_log := output_log s @ [to_string (sint v)]\<rparr>))
      | RETURN \<Rightarrow> Inr (True, s)
      | CALL \<Rightarrow>
          (if funcName instr = ''print'' \<and> args instr \<noteq> [] then
             (case getValue s (hd (args instr)) of
                Inl e \<Rightarrow> Inl e
              | Inr v \<Rightarrow> Inr (False, s\<lparr>output_log := output_log s @ [to_string (sint v)]\<rparr>))
           else Inr (False, s))
      | NOP \<Rightarrow> Inr (False, s)
      | CONST_INSTR \<Rightarrow> Inr (False, s))"

text \<open>
  The \<open>while\<close> loop of \<open>execute\<close>.  It may run forever (a \<open>goto\<close> cycle), and an
  undefined division kills the process, so it is a partial function: \<open>None\<close> is "does
  not return".  \<open>Some (b, s)\<close> is the returned boolean and the interpreter object
  afterwards.  An exception is caught and gives \<open>false\<close>; every throw happens before the
  case writes anything, so the object is then as it was before the instruction.  The counter is 0 at the start and is set to a label's
  index minus 1 and then incremented, so it is never negative where it indexes the vector.
\<close>

partial_function (option) executeLoop ::
  "IRProgram \<Rightarrow> Interpreter \<Rightarrow> (bool \<times> Interpreter) option" where
  "executeLoop program s =
     (if pc s < int (length (instructions program)) then
        (case executeInstr program (instructions program ! nat (pc s)) s of
           Inl e \<Rightarrow> if e = UndefinedDivision then None else Some (False, s)
         | Inr r \<Rightarrow>
             if fst r then Some (True, snd r)
             else executeLoop program ((snd r)\<lparr>pc := pc (snd r) + 1\<rparr>))
      else Some (True, s))"

definition execute :: "IRProgram \<Rightarrow> Interpreter \<Rightarrow> (bool \<times> Interpreter) option" where
  "execute program s =
     (let s0 = s\<lparr>variables := Map.empty, output_log := [], pc := 0\<rparr>;
          s1 = s0\<lparr>variables :=
                 (\<lambda>var. case variableTypes program var of
                           Some ty \<Rightarrow> Some 0
                         | None \<Rightarrow> variables s0 var)\<rparr>
      in executeLoop program s1)"

definition getOutput :: "Interpreter \<Rightarrow> string list" where
  "getOutput s = output_log s"

section \<open>Optimizer (optimizer.h)\<close>

text \<open>
  The body of the loop of \<open>foldConstants\<close>, on one instruction.  The division and the
  modulo are guarded against a zero divisor only, so folding \<open>INT_MIN\<close> by \<open>-1\<close> has no
  result: \<open>None\<close> is the killed process.
\<close>

definition foldInstr :: "Instruction \<Rightarrow> Instruction option" where
  "foldInstr instr =
     (if itype instr = BIN_OP then
        (if isConst (op1 instr) \<and> isConst (op2 instr) then
           (let val1 = ovalue (op1 instr);
                val2 = ovalue (op2 instr);
                foldedValue =
                  (case binOp instr of
                     ADD \<Rightarrow> Some (val1 + val2)
                   | SUB \<Rightarrow> Some (val1 - val2)
                   | MUL \<Rightarrow> Some (val1 * val2)
                   | DIV \<Rightarrow> if val2 \<noteq> 0 then c_div val1 val2 else Some 0
                   | MOD \<Rightarrow> if val2 \<noteq> 0 then c_mod val1 val2 else Some 0
                   | EQ \<Rightarrow> Some (if val1 = val2 then 1 else 0)
                   | NE \<Rightarrow> Some (if val1 \<noteq> val2 then 1 else 0)
                   | LT \<Rightarrow> Some (if sint val1 < sint val2 then 1 else 0)
                   | GT \<Rightarrow> Some (if sint val1 > sint val2 then 1 else 0)
                   | LE \<Rightarrow> Some (if sint val1 \<le> sint val2 then 1 else 0)
                   | GE \<Rightarrow> Some (if sint val1 \<ge> sint val2 then 1 else 0)
                   | AND \<Rightarrow> Some (if val1 \<noteq> 0 \<and> val2 \<noteq> 0 then 1 else 0)
                   | OR \<Rightarrow> Some (if val1 \<noteq> 0 \<or> val2 \<noteq> 0 then 1 else 0))
            in case foldedValue of
                 None \<Rightarrow> None
               | Some v \<Rightarrow> Some (instr\<lparr>itype := ASSIGN, op1 := Operand_int v\<rparr>))
         else Some instr)
      else if itype instr = UN_OP then
        (if isConst (op1 instr) then
           (let val = ovalue (op1 instr);
                foldedValue =
                  (if unOp instr = NEG then - val
                   else if unOp instr = NOT then (if val \<noteq> 0 then 0 else 1)
                   else 0)
            in Some (instr\<lparr>itype := ASSIGN, op1 := Operand_int foldedValue\<rparr>))
         else Some instr)
      else Some instr)"

text \<open>The loop of \<open>foldConstants\<close> over the instruction vector, front to back.\<close>

fun foldAll :: "Instruction list \<Rightarrow> Instruction list option" where
  "foldAll [] = Some []"
| "foldAll (instr # rest) =
     (case foldInstr instr of
        None \<Rightarrow> None
      | Some instr' \<Rightarrow>
          (case foldAll rest of
             None \<Rightarrow> None
           | Some rest' \<Rightarrow> Some (instr' # rest')))"

definition foldConstants :: "IRProgram \<Rightarrow> IRProgram option" where
  "foldConstants input =
     (case foldAll (instructions input) of
        None \<Rightarrow> None
      | Some folded \<Rightarrow> Some (input\<lparr>instructions := folded\<rparr>))"

text \<open>
  First pass of \<open>eliminateDeadCode\<close>: one instruction's contribution to the pair
  \<open>(usedVars, assignedVars)\<close>.
\<close>

definition markAssigned :: "Instruction \<Rightarrow> string set \<Rightarrow> string set" where
  "markAssigned instr assignedVars =
     (if itype instr = ASSIGN \<or> itype instr = BIN_OP \<or> itype instr = UN_OP
      then insert (str (result instr)) assignedVars else assignedVars)"

definition markUsed :: "Instruction \<Rightarrow> string set \<Rightarrow> string set" where
  "markUsed instr usedVars =
     (if itype instr = PRINT then insert (str (op1 instr)) usedVars
      else if itype instr = RETURN then insert (str (op1 instr)) usedVars
      else if itype instr = IF_GOTO then insert (str (op1 instr)) usedVars
      else if itype instr = BIN_OP then
        insert (str (op2 instr)) (insert (str (op1 instr)) usedVars)
      else if itype instr = UN_OP then insert (str (op1 instr)) usedVars
      else if itype instr = ASSIGN then insert (str (op1 instr)) usedVars
      else if itype instr = CALL then fold (\<lambda>arg u. insert (str arg) u) (args instr) usedVars
      else usedVars)"

definition markInstr :: "Instruction \<Rightarrow> string set \<times> string set \<Rightarrow> string set \<times> string set" where
  "markInstr instr acc = (markUsed instr (fst acc), markAssigned instr (snd acc))"

definition collectVars :: "Instruction list \<Rightarrow> string set \<times> string set" where
  "collectVars instrs = fold markInstr instrs ({}, {})"

text \<open>Second pass: the test that sets \<open>isDead\<close>.\<close>

definition isDead :: "string set \<Rightarrow> string set \<Rightarrow> Instruction \<Rightarrow> bool" where
  "isDead usedVars assignedVars instr =
     ((itype instr = ASSIGN \<or> itype instr = BIN_OP \<or> itype instr = UN_OP) \<and>
      str (result instr) \<in> assignedVars \<and>
      str (result instr) \<notin> usedVars)"

definition eliminateDeadCode :: "IRProgram \<Rightarrow> IRProgram" where
  "eliminateDeadCode input =
     (let usedVars = fst (collectVars (instructions input));
          assignedVars = snd (collectVars (instructions input));
          filtered = filter (\<lambda>instr. \<not> isDead usedVars assignedVars instr) (instructions input)
      in input\<lparr>instructions := filtered\<rparr>)"

definition optimize :: "IRProgram \<Rightarrow> IRProgram option" where
  "optimize input =
     (case foldConstants input of
        None \<Rightarrow> None
      | Some folded \<Rightarrow> Some (eliminateDeadCode folded))"

section \<open>Abstract syntax (parser.h)\<close>

text \<open>
  The node classes of the parser.  A \<open>shared_ptr\<close> may be null, so a child is an
  \<open>option\<close>.  \<open>PlainExpr\<close> and \<open>PlainStmt\<close> are objects of the base classes
  \<open>Expression\<close> and \<open>Statement\<close> themselves (the parser builds such a statement for
  an expression statement): every \<open>dynamic_pointer_cast\<close> fails on them.  The field
  \<open>dataType\<close> of an expression is read for constants only and \<open>line\<close> for
  declarations only, so they are kept there and left out elsewhere.
\<close>

datatype ConstValue = IntValue cint | BoolValue bool

datatype Expr =
    BinExpr "Expr option" "Expr option" BinOp
  | UnExpr "Expr option" UnOp
  | VarExpr string
  | ConstExpr ConstValue string
  | CallExpr string "Expr option list"
  | PlainExpr

datatype Stmt =
    DeclStmt string string "Expr option" int
  | AssignStmt string "Expr option"
  | IfStmt "Expr option" "Stmt option list" "Stmt option list"
  | WhileStmt "Expr option" "Stmt option list"
  | ForStmt "Stmt option" "Expr option" "Expr option" "Stmt option list"
  | BlockStmt "Stmt option list"
  | ReturnStmt "Expr option"
  | PrintStmt "Expr option"
  | PlainStmt

record Program =
  statements :: "Stmt option list"

section \<open>Semantic analysis (semantic.h)\<close>

record Symbol =
  sym_name :: string
  sym_type :: string
  definedLine :: int
  initialized :: bool

text \<open>The analyzer object: its field \<open>symbolTable\<close> is \<open>sem_symbolTable\<close> here.\<close>

record SemanticAnalyzer =
  sem_symbolTable :: "string \<rightharpoonup> Symbol"
  errors :: "string list"
  warnings :: "string list"

definition SemanticAnalyzer_new :: SemanticAnalyzer where
  "SemanticAnalyzer_new = \<lparr>sem_symbolTable = Map.empty, errors = [], warnings = []\<rparr>"

definition push_error :: "string \<Rightarrow> SemanticAnalyzer \<Rightarrow> SemanticAnalyzer" where
  "push_error msg s = s\<lparr>errors := errors s @ [msg]\<rparr>"

definition push_warning :: "string \<Rightarrow> SemanticAnalyzer \<Rightarrow> SemanticAnalyzer" where
  "push_warning msg s = s\<lparr>warnings := warnings s @ [msg]\<rparr>"

definition visitVarExpr :: "string \<Rightarrow> SemanticAnalyzer \<Rightarrow> string \<times> SemanticAnalyzer" where
  "visitVarExpr nm s =
     (case sem_symbolTable s nm of
        None \<Rightarrow> (''int'', push_error (''Undefined variable '' @ [CHR 0x27] @ nm @ [CHR 0x27]) s)
      | Some entry \<Rightarrow>
          (sym_type entry,
           if \<not> initialized entry
           then push_warning (''Variable '' @ [CHR 0x27] @ nm @ [CHR 0x27] @ '' may be uninitialized'') s
           else s))"

definition visitCallExpr :: "string \<Rightarrow> SemanticAnalyzer \<Rightarrow> string \<times> SemanticAnalyzer" where
  "visitCallExpr fn s = (if fn = ''print'' then (''int'', s) else (''int'', s))"

function visitExpression :: "Expr option \<Rightarrow> SemanticAnalyzer \<Rightarrow> string \<times> SemanticAnalyzer"
  and visitBinExpr ::
    "Expr option \<Rightarrow> Expr option \<Rightarrow> BinOp \<Rightarrow> SemanticAnalyzer \<Rightarrow> string \<times> SemanticAnalyzer"
  and visitUnExpr :: "Expr option \<Rightarrow> UnOp \<Rightarrow> SemanticAnalyzer \<Rightarrow> string \<times> SemanticAnalyzer"
  where
  "visitExpression None s = (''int'', s)"
| "visitExpression (Some (BinExpr l r bop)) s = visitBinExpr l r bop s"
| "visitExpression (Some (UnExpr e uop)) s = visitUnExpr e uop s"
| "visitExpression (Some (VarExpr nm)) s = visitVarExpr nm s"
| "visitExpression (Some (ConstExpr v dataType)) s = (dataType, s)"
| "visitExpression (Some (CallExpr fn as)) s = visitCallExpr fn s"
| "visitExpression (Some PlainExpr) s = (''int'', s)"
| "visitBinExpr l r bop s =
     (let (leftType, s1) = visitExpression l s;
          (rightType, s2) = visitExpression r s1
      in if bop = EQ \<or> bop = NE \<or> bop = LT \<or> bop = GT \<or> bop = LE \<or> bop = GE
         then (''bool'', s2)
         else if bop = AND \<or> bop = OR then
           (let s3 = (if leftType \<noteq> ''bool''
                      then push_warning (''Logical operator expects boolean, got '' @ leftType) s2
                      else s2);
                s4 = (if rightType \<noteq> ''bool''
                      then push_warning (''Logical operator expects boolean, got '' @ rightType) s3
                      else s3)
            in (''bool'', s4))
         else
           (leftType,
            if leftType \<noteq> rightType
            then push_warning ''Type mismatch in binary operation'' s2 else s2))"
| "visitUnExpr e uop s =
     (let (opType, s1) = visitExpression e s
      in if uop = NEG then
           (''int'',
            if opType \<noteq> ''int''
            then push_warning (''Unary minus expects int, got '' @ opType) s1 else s1)
         else if uop = NOT then
           (''bool'',
            if opType \<noteq> ''bool''
            then push_warning (''Logical not expects bool, got '' @ opType) s1 else s1)
         else (opType, s1))"
  by pat_completeness auto

termination
  by (relation "measure (\<lambda>x. case x of
         Inl (e, s) \<Rightarrow> 2 * size_option size e
       | Inr (Inl (l, r, bop, s)) \<Rightarrow> 2 * (size_option size l + size_option size r) + 1
       | Inr (Inr (e, uop, s)) \<Rightarrow> 2 * size_option size e + 1)") auto

text \<open>
  \<open>visitDecl\<close> and \<open>visitAssign\<close>, on the fields of the statement.  The early
  \<open>return\<close> of each is the first branch.
\<close>

definition visitDecl ::
  "string \<Rightarrow> string \<Rightarrow> Expr option \<Rightarrow> int \<Rightarrow> SemanticAnalyzer \<Rightarrow> SemanticAnalyzer" where
  "visitDecl varName dataType initializer line s =
     (if sem_symbolTable s varName \<noteq> None then
        push_error (''Variable '' @ [CHR 0x27] @ varName @ [CHR 0x27] @ '' already defined'') s
      else
        (let entry = \<lparr>sym_name = varName, sym_type = dataType, definedLine = line,
                      initialized = (initializer \<noteq> None)\<rparr>;
             s1 = (if initializer \<noteq> None then
                     (let (exprType, s') = visitExpression initializer s
                      in if exprType \<noteq> dataType then
                           push_warning (''Type mismatch in initialization of '' @ [CHR 0x27] @
                             varName @ [CHR 0x27] @ '': expected '' @ dataType @
                             '', got '' @ exprType) s'
                         else s')
                   else s)
         in s1\<lparr>sem_symbolTable := (sem_symbolTable s1)(varName \<mapsto> entry)\<rparr>))"

definition visitAssign :: "string \<Rightarrow> Expr option \<Rightarrow> SemanticAnalyzer \<Rightarrow> SemanticAnalyzer" where
  "visitAssign varName v s =
     (if sem_symbolTable s varName = None then
        push_error (''Variable '' @ [CHR 0x27] @ varName @ [CHR 0x27] @ '' is not defined'') s
      else
        (let (exprType, s1) = visitExpression v s;
             \<comment> \<open>\<open>operator[]\<close> inserts a default \<open>Symbol\<close> when the key is absent\<close>
             entry = (case sem_symbolTable s1 varName of
                        Some e \<Rightarrow> e
                      | None \<Rightarrow> \<lparr>sym_name = [], sym_type = [], definedLine = 0,
                                  initialized = False\<rparr>);
             varType = sym_type entry;
             s2 = (if exprType \<noteq> varType then
                     push_warning (''Type mismatch in assignment to '' @ [CHR 0x27] @ varName @
                       [CHR 0x27] @ '': expected '' @ varType @ '', got '' @ exprType) s1
                   else s1)
         in s2\<lparr>sem_symbolTable := (sem_symbolTable s2)(varName \<mapsto> entry\<lparr>initialized := True\<rparr>)\<rparr>))"

text \<open>
  The condition check that \<open>visitIfStatement\<close>, \<open>visitWhileStatement\<close> and
  \<open>visitForStatement\<close> each contain, with the statement's name in the warning.
\<close>

definition checkCondition :: "string \<Rightarrow> Expr option \<Rightarrow> SemanticAnalyzer \<Rightarrow> SemanticAnalyzer" where
  "checkCondition what cond s =
     (let (condType, s1) = visitExpression cond s
      in if condType \<noteq> ''bool''
         then push_warning (what @ '' condition should be boolean, got '' @ condType) s1
         else s1)"

function visitStatement :: "Stmt option \<Rightarrow> SemanticAnalyzer \<Rightarrow> SemanticAnalyzer"
  and visitIfStatement ::
    "Expr option \<Rightarrow> Stmt option list \<Rightarrow> Stmt option list \<Rightarrow> SemanticAnalyzer \<Rightarrow> SemanticAnalyzer"
  and visitWhileStatement ::
    "Expr option \<Rightarrow> Stmt option list \<Rightarrow> SemanticAnalyzer \<Rightarrow> SemanticAnalyzer"
  and visitForStatement ::
    "Stmt option \<Rightarrow> Expr option \<Rightarrow> Expr option \<Rightarrow> Stmt option list \<Rightarrow> SemanticAnalyzer
       \<Rightarrow> SemanticAnalyzer"
  where
  "visitStatement None s = s"
| "visitStatement (Some (DeclStmt varName dataType initializer line)) s =
     visitDecl varName dataType initializer line s"
| "visitStatement (Some (AssignStmt varName v)) s = visitAssign varName v s"
| "visitStatement (Some (IfStmt cond thenBranch elseBranch)) s =
     visitIfStatement cond thenBranch elseBranch s"
| "visitStatement (Some (WhileStmt cond body)) s = visitWhileStatement cond body s"
| "visitStatement (Some (ForStmt init cond update body)) s =
     visitForStatement init cond update body s"
| "visitStatement (Some (BlockStmt stmts)) s = fold visitStatement stmts s"
| "visitStatement (Some (PrintStmt v)) s = snd (visitExpression v s)"
| "visitStatement (Some (ReturnStmt v)) s =
     (if v \<noteq> None then snd (visitExpression v s) else s)"
| "visitStatement (Some PlainStmt) s = s"
| "visitIfStatement cond thenBranch elseBranch s =
     fold visitStatement elseBranch
       (fold visitStatement thenBranch (checkCondition ''If'' cond s))"
| "visitWhileStatement cond body s =
     fold visitStatement body (checkCondition ''While'' cond s)"
| "visitForStatement init cond update body s =
     (let s1 = (if init \<noteq> None then visitStatement init s else s);
          s2 = (if cond \<noteq> None then checkCondition ''For'' cond s1 else s1);
          s3 = (if update \<noteq> None then snd (visitExpression update s2) else s2)
      in fold visitStatement body s3)"
  by pat_completeness auto

termination
proof -
  have le: "size_option size x \<le> size_list (size_option size) xs"
    if "x \<in> set xs" for x :: "Stmt option" and xs
    using that by (induction xs) auto
  show ?thesis
    by (relation "measure (\<lambda>x. case x of
           Inl (Inl (st, s)) \<Rightarrow> 2 * size_option size st
         | Inl (Inr (c, th, el, s)) \<Rightarrow>
             2 * (size_list (size_option size) th + size_list (size_option size) el) + 1
         | Inr (Inl (c, body, s)) \<Rightarrow> 2 * size_list (size_option size) body + 1
         | Inr (Inr (init, c, u, body, s)) \<Rightarrow>
             2 * (size_option size init + size_list (size_option size) body) + 1)")
       (auto dest: le)
qed

text \<open>
  \<open>analyze\<close>, on the analyzer object as it is at the call (the fields are not reset).
  No visit function throws, so the \<open>catch\<close> branch has no counterpart here.
\<close>

definition analyze :: "Program option \<Rightarrow> SemanticAnalyzer \<Rightarrow> bool \<times> SemanticAnalyzer" where
  "analyze program s =
     (case program of
        None \<Rightarrow> (False, s)
      | Some p \<Rightarrow>
          (let s' = fold visitStatement (statements p) s
           in (errors s' = [], s')))"

definition getErrors :: "SemanticAnalyzer \<Rightarrow> string list" where
  "getErrors s = errors s"

definition getWarnings :: "SemanticAnalyzer \<Rightarrow> string list" where
  "getWarnings s = warnings s"

section \<open>Code generation (codegen.h)\<close>

text \<open>
  The generator object.  Its field \<open>variableTypes\<close> is \<open>gen_variableTypes\<close> here;
  the reference to the semantic analyzer is never used.  The counters are C++ \<open>int\<close>s
  that only count up from 0; they are unbounded integers here.
\<close>

record CodeGenerator =
  ir :: IRProgram
  tempCounter :: int
  labelCounter :: int
  gen_variableTypes :: "string \<rightharpoonup> int"

definition CodeGenerator_new :: CodeGenerator where
  "CodeGenerator_new =
     \<lparr>ir = \<lparr>instructions = [], variableTypes = Map.empty, symbolTable = Map.empty\<rparr>,
      tempCounter = 0, labelCounter = 0, gen_variableTypes = Map.empty\<rparr>"

definition genTemp :: "CodeGenerator \<Rightarrow> string \<times> CodeGenerator" where
  "genTemp g = (''t'' @ to_string (tempCounter g), g\<lparr>tempCounter := tempCounter g + 1\<rparr>)"

definition genLabel :: "CodeGenerator \<Rightarrow> string \<times> CodeGenerator" where
  "genLabel g = (''L'' @ to_string (labelCounter g), g\<lparr>labelCounter := labelCounter g + 1\<rparr>)"

definition emitInstruction :: "Instruction \<Rightarrow> CodeGenerator \<Rightarrow> CodeGenerator" where
  "emitInstruction instr g = g\<lparr>ir := addInstruction instr (ir g)\<rparr>"

function genExpression :: "Expr option \<Rightarrow> CodeGenerator \<Rightarrow> Operand \<times> CodeGenerator"
  and genBinExpr ::
    "Expr option \<Rightarrow> Expr option \<Rightarrow> BinOp \<Rightarrow> CodeGenerator \<Rightarrow> Operand \<times> CodeGenerator"
  and genUnExpr :: "Expr option \<Rightarrow> UnOp \<Rightarrow> CodeGenerator \<Rightarrow> Operand \<times> CodeGenerator"
  and genCallExpr :: "string \<Rightarrow> Expr option list \<Rightarrow> CodeGenerator \<Rightarrow> Operand \<times> CodeGenerator"
  where
  "genExpression None g = (Operand_int 0, g)"
| "genExpression (Some (BinExpr l r bop)) g = genBinExpr l r bop g"
| "genExpression (Some (UnExpr e uop)) g = genUnExpr e uop g"
| "genExpression (Some (VarExpr nm)) g = (Operand_named nm OT_VAR, g)"
| "genExpression (Some (ConstExpr v dataType)) g =
     (case v of
        IntValue i \<Rightarrow> (Operand_int i, g)
      | BoolValue b \<Rightarrow> (Operand_int (if b then 1 else 0), g))"
| "genExpression (Some (CallExpr fn as)) g = genCallExpr fn as g"
| "genExpression (Some PlainExpr) g = (Operand_int 0, g)"
| "genBinExpr l r bop g =
     (let (left, g1) = genExpression l g;
          (right, g2) = genExpression r g1;
          (res, g3) = genTemp g2;
          instr = createBinOp (Operand_named res OT_TEMP) bop left right
      in (Operand_named res OT_TEMP, emitInstruction instr g3))"
| "genUnExpr e uop g =
     (let (operand, g1) = genExpression e g;
          (res, g2) = genTemp g1;
          instr = createUnOp (Operand_named res OT_TEMP) uop operand
      in (Operand_named res OT_TEMP, emitInstruction instr g2))"
| "genCallExpr fn as g =
     (let (arguments, g1) =
            fold (\<lambda>arg acc. let (a, g') = genExpression arg (snd acc) in (fst acc @ [a], g'))
              as ([], g);
          (res, g2) = genTemp g1;
          instr = createCall (Operand_named res OT_TEMP) fn arguments
      in (Operand_named res OT_TEMP, emitInstruction instr g2))"
  by pat_completeness auto

termination
proof -
  have le: "size_option size x \<le> size_list (size_option size) xs"
    if "x \<in> set xs" for x :: "Expr option" and xs
    using that by (induction xs) auto
  show ?thesis
    by (relation "measure (\<lambda>x. case x of
           Inl (Inl (e, g)) \<Rightarrow> 2 * size_option size e
         | Inl (Inr (l, r, bop, g)) \<Rightarrow> 2 * (size_option size l + size_option size r) + 1
         | Inr (Inl (e, uop, g)) \<Rightarrow> 2 * size_option size e + 1
         | Inr (Inr (fn, as, g)) \<Rightarrow> 2 * size_list (size_option size) as + 1)")
       (auto dest: le)
qed

definition registerType :: "string \<Rightarrow> string \<Rightarrow> CodeGenerator \<Rightarrow> CodeGenerator" where
  \<comment> \<open>the three lines shared by the first pass of \<open>generate\<close> and by \<open>genDecl\<close>\<close>
  "registerType varName dataType g =
     (let typeCode = (if dataType = ''int'' then 0 else 1)
      in g\<lparr>ir := (ir g)\<lparr>variableTypes := (variableTypes (ir g))(varName \<mapsto> typeCode)\<rparr>,
            gen_variableTypes := (gen_variableTypes g)(varName \<mapsto> typeCode)\<rparr>)"

definition genDecl :: "string \<Rightarrow> string \<Rightarrow> Expr option \<Rightarrow> CodeGenerator \<Rightarrow> CodeGenerator" where
  "genDecl varName dataType initializer g =
     (let g1 = registerType varName dataType g
      in if initializer \<noteq> None then
           (let (res, g2) = genExpression initializer g1
            in emitInstruction (createAssign (Operand_named varName OT_VAR) res) g2)
         else g1)"

definition genAssign :: "string \<Rightarrow> Expr option \<Rightarrow> CodeGenerator \<Rightarrow> CodeGenerator" where
  "genAssign varName v g =
     (let (res, g1) = genExpression v g
      in emitInstruction (createAssign (Operand_named varName OT_VAR) res) g1)"

function genStatement :: "Stmt option \<Rightarrow> CodeGenerator \<Rightarrow> CodeGenerator"
  and genIfStatement ::
    "Expr option \<Rightarrow> Stmt option list \<Rightarrow> Stmt option list \<Rightarrow> CodeGenerator \<Rightarrow> CodeGenerator"
  and genWhileStatement :: "Expr option \<Rightarrow> Stmt option list \<Rightarrow> CodeGenerator \<Rightarrow> CodeGenerator"
  and genForStatement ::
    "Stmt option \<Rightarrow> Expr option \<Rightarrow> Expr option \<Rightarrow> Stmt option list \<Rightarrow> CodeGenerator
       \<Rightarrow> CodeGenerator"
  where
  "genStatement None g = g"
| "genStatement (Some (DeclStmt varName dataType initializer line)) g =
     genDecl varName dataType initializer g"
| "genStatement (Some (AssignStmt varName v)) g = genAssign varName v g"
| "genStatement (Some (IfStmt cond thenBranch elseBranch)) g =
     genIfStatement cond thenBranch elseBranch g"
| "genStatement (Some (WhileStmt cond body)) g = genWhileStatement cond body g"
| "genStatement (Some (ForStmt init cond update body)) g =
     genForStatement init cond update body g"
| "genStatement (Some (BlockStmt stmts)) g = fold genStatement stmts g"
| "genStatement (Some (PrintStmt v)) g =
     (let (res, g1) = genExpression v g in emitInstruction (createPrint res) g1)"
| "genStatement (Some (ReturnStmt v)) g =
     (if v \<noteq> None then
        (let (res, g1) = genExpression v g in emitInstruction (createReturn res) g1)
      else emitInstruction (createReturn (Operand_int 0)) g)"
| "genStatement (Some PlainStmt) g = g"
| "genIfStatement cond thenBranch elseBranch g =
     (let (condition, g1) = genExpression cond g;
          (elseLabel, g2) = genLabel g1;
          (endLabel, g3) = genLabel g2;
          g4 = emitInstruction (createIfGoto condition elseLabel) g3;
          g5 = fold genStatement thenBranch g4
      in if elseBranch \<noteq> [] then
           (let g6 = emitInstruction (createGoto endLabel) g5;
                g7 = emitInstruction (createLabel elseLabel) g6;
                g8 = fold genStatement elseBranch g7
            in emitInstruction (createLabel endLabel) g8)
         else emitInstruction (createLabel elseLabel) g5)"
| "genWhileStatement cond body g =
     (let (loopLabel, g1) = genLabel g;
          (endLabel, g2) = genLabel g1;
          g3 = emitInstruction (createLabel loopLabel) g2;
          (condition, g4) = genExpression cond g3;
          g5 = emitInstruction (createIfGoto condition endLabel) g4;
          g6 = fold genStatement body g5;
          g7 = emitInstruction (createGoto loopLabel) g6
      in emitInstruction (createLabel endLabel) g7)"
| "genForStatement init cond update body g =
     (let g0 = (if init \<noteq> None then genStatement init g else g);
          (loopLabel, g1) = genLabel g0;
          (endLabel, g2) = genLabel g1;
          g3 = emitInstruction (createLabel loopLabel) g2;
          g4 = (if cond \<noteq> None then
                  (let (condition, g') = genExpression cond g3
                   in emitInstruction (createIfGoto condition endLabel) g')
                else g3);
          g5 = fold genStatement body g4;
          g6 = (if update \<noteq> None then snd (genExpression update g5) else g5);
          g7 = emitInstruction (createGoto loopLabel) g6
      in emitInstruction (createLabel endLabel) g7)"
  by pat_completeness auto

termination
proof -
  have le: "size_option size x \<le> size_list (size_option size) xs"
    if "x \<in> set xs" for x :: "Stmt option" and xs
    using that by (induction xs) auto
  show ?thesis
    by (relation "measure (\<lambda>x. case x of
           Inl (Inl (st, g)) \<Rightarrow> 2 * size_option size st
         | Inl (Inr (c, th, el, g)) \<Rightarrow>
             2 * (size_list (size_option size) th + size_list (size_option size) el) + 1
         | Inr (Inl (c, body, g)) \<Rightarrow> 2 * size_list (size_option size) body + 1
         | Inr (Inr (init, c, u, body, g)) \<Rightarrow>
             2 * (size_option size init + size_list (size_option size) body) + 1)")
       (auto dest: le)
qed

text \<open>
  \<open>generate\<close>: the instruction list and both counters are reset (the variable tables
  are not); the first pass registers the top-level declarations, the second generates.
\<close>

definition declSweep :: "Stmt option \<Rightarrow> CodeGenerator \<Rightarrow> CodeGenerator" where
  "declSweep stmt g =
     (case stmt of
        Some (DeclStmt varName dataType initializer line) \<Rightarrow> registerType varName dataType g
      | _ \<Rightarrow> g)"

definition generate :: "Program option \<Rightarrow> CodeGenerator \<Rightarrow> IRProgram \<times> CodeGenerator" where
  "generate program g =
     (let g0 = g\<lparr>ir := (ir g)\<lparr>instructions := []\<rparr>, tempCounter := 0, labelCounter := 0\<rparr>
      in case program of
           None \<Rightarrow> (ir g0, g0)
         | Some p \<Rightarrow>
             (let g1 = fold declSweep (statements p) g0;
                  g2 = fold genStatement (statements p) g1
              in (ir g2, g2)))"

section \<open>Driver (main.cpp)\<close>

text \<open>
  Phases 5 and 6 of \<open>main\<close> with optimisation enabled: the program is replaced by the
  result of \<open>optimize\<close> and then executed.
\<close>

definition optimizeAndExecute ::
  "IRProgram \<Rightarrow> Interpreter \<Rightarrow> (bool \<times> Interpreter) option" where
  "optimizeAndExecute program s =
     (case optimize program of
        None \<Rightarrow> None
      | Some optimizedIR \<Rightarrow> execute optimizedIR s)"

section \<open>Inputs and observations used in the statements\<close>

text \<open>A freshly constructed \<open>Interpreter\<close> object (the default member initialisers).\<close>

definition Interpreter_new :: Interpreter where
  "Interpreter_new = \<lparr>variables = Map.empty, output_log = [], pc = 0\<rparr>"

text \<open>What a caller sees of a run: the boolean result and \<open>getOutput()\<close>.\<close>

definition exec_result :: "(bool \<times> Interpreter) option \<Rightarrow> (bool \<times> string list) option" where
  "exec_result r = map_option (\<lambda>(b, s). (b, getOutput s)) r"


text \<open>
  The tree the parser builds for \<open>int a = 2; int b = 3; print(a + b);\<close>:
  \<open>declaration\<close> gives a \<open>DeclStmt\<close> with the type keyword's lexeme and the initialiser,
  \<open>printStatement\<close> a \<open>PrintStmt\<close>, \<open>additiveExpression\<close> a \<open>BinExpr\<close> with
  \<open>BinOp::ADD\<close>.  \<open>scenarioA_tac\<close> is what a fresh generator makes of it.
\<close>

definition scenarioA :: Program where
  "scenarioA = \<lparr>statements =
     [Some (DeclStmt ''a'' ''int'' (Some (ConstExpr (IntValue 2) ''int'')) 1),
      Some (DeclStmt ''b'' ''int'' (Some (ConstExpr (IntValue 3) ''int'')) 1),
      Some (PrintStmt (Some (BinExpr (Some (VarExpr ''a'')) (Some (VarExpr ''b'')) ADD)))]\<rparr>"

definition scenarioA_tac :: IRProgram where
  "scenarioA_tac = fst (generate (Some scenarioA) CodeGenerator_new)"


definition divByVariable :: Instruction where
  "divByVariable =
     createBinOp (Operand_named ''t0'' OT_TEMP) DIV (Operand_int 5) (Operand_named ''d'' OT_VAR)"


definition scenarioC_runtime :: IRProgram where
  "scenarioC_runtime =
     \<lparr>instructions = [createAssign (Operand_named ''d'' OT_VAR) (Operand_int 0),
                      divByVariable,
                      createAssign (Operand_named ''z'' OT_VAR) (Operand_named ''t0'' OT_TEMP)],
      variableTypes = [''d'' \<mapsto> 0, ''z'' \<mapsto> 0], symbolTable = Map.empty\<rparr>"

text \<open>Programs with a jump to a label that no instruction defines.\<close>

definition unreachedDanglingGoto :: IRProgram where
  "unreachedDanglingGoto =
     \<lparr>instructions = [createReturn (Operand_int 0), createGoto ''nowhere''],
      variableTypes = Map.empty, symbolTable = Map.empty\<rparr>"

definition danglingGoto :: IRProgram where
  "danglingGoto =
     \<lparr>instructions = [createGoto ''nowhere''],
      variableTypes = Map.empty, symbolTable = Map.empty\<rparr>"




definition frameExample :: IRProgram where
  "frameExample =
     \<lparr>instructions =
        [createBinOp (Operand_named ''x'' OT_VAR) ADD (Operand_int 1) (Operand_int 2),
         createLabel ''L0'', createPrint (Operand_int 7), createReturn (Operand_int 0)],
      variableTypes = [''x'' \<mapsto> 0], symbolTable = Map.empty\<rparr>"

definition frameExample_folded :: IRProgram where
  "frameExample_folded =
     \<lparr>instructions =
        [(createBinOp (Operand_named ''x'' OT_VAR) ADD (Operand_int 1) (Operand_int 2))
           \<lparr>itype := ASSIGN, op1 := Operand_int 3\<rparr>,
         createLabel ''L0'', createPrint (Operand_int 7), createReturn (Operand_int 0)],
      variableTypes = [''x'' \<mapsto> 0], symbolTable = Map.empty\<rparr>"

definition frameExample_optimized :: IRProgram where
  "frameExample_optimized =
     \<lparr>instructions =
        [createLabel ''L0'', createPrint (Operand_int 7), createReturn (Operand_int 0)],
      variableTypes = [''x'' \<mapsto> 0], symbolTable = Map.empty\<rparr>"

text \<open>A temporary that feeds a \<open>print\<close>: \<open>t0 = a + 1; print(t0)\<close>.\<close>

definition liveTemporary :: IRProgram where
  "liveTemporary =
     \<lparr>instructions =
        [createBinOp (Operand_named ''t0'' OT_TEMP) ADD (Operand_named ''a'' OT_VAR) (Operand_int 1),
         createPrint (Operand_named ''t0'' OT_TEMP)],
      variableTypes = [''a'' \<mapsto> 0], symbolTable = Map.empty\<rparr>"

text \<open>
  The message of \<open>visitDecl\<close> for a redeclared name, the statements \<open>int a = 1;\<close> and
  \<open>print(y);\<close>, and a fresh analyzer after \<open>int a = 1;\<close>.
\<close>

definition alreadyDefined :: "string \<Rightarrow> string" where
  "alreadyDefined varName =
     ''Variable '' @ [CHR 0x27] @ varName @ [CHR 0x27] @ '' already defined''"

definition declA1 :: "Stmt option" where
  "declA1 = Some (DeclStmt ''a'' ''int'' (Some (ConstExpr (IntValue 1) ''int'')) 1)"

definition printY :: "Stmt option" where
  "printY = Some (PrintStmt (Some (VarExpr ''y'')))"

definition afterDeclA :: SemanticAnalyzer where
  "afterDeclA = visitStatement declA1 SemanticAnalyzer_new"

section \<open>Evaluation lemmas\<close>

lemmas instr_defs = createAssign_def createBinOp_def createUnOp_def createPrint_def
  createReturn_def createGoto_def createIfGoto_def createLabel_def createCall_def
  Instruction_default_def Operand_named_def Operand_int_def Operand_default_def

lemmas exec_defs = executeInstr_def executeBinOp_def executeUnOp_def executeAssign_def
  getValue_def setValue_def isConst_def isVar_def str_def findLabel_def

lemmas to_string_defs = to_string_def to_string_nat.simps digit_char_def

lemmas gen_defs = generate_def CodeGenerator_new_def declSweep_def registerType_def genDecl_def
  genAssign_def emitInstruction_def addInstruction_def genTemp_def genLabel_def

lemmas opt_defs = optimize_def foldConstants_def foldInstr_def eliminateDeadCode_def
  collectVars_def markInstr_def markUsed_def markAssigned_def isDead_def

lemma executeLoop_throw:
  assumes "pc s = int k" "k < length (instructions p)"
    and "executeInstr p (instructions p ! k) s = Inl e" and "e \<noteq> UndefinedDivision"
  shows "executeLoop p s = Some (False, s)"
  using assms by (subst executeLoop.simps) simp


lemma findLabelFrom_missing:
  "\<forall>j \<in> set xs. \<not> (itype j = LABEL \<and> label j = lbl) \<Longrightarrow>
   findLabelFrom xs n lbl = Inl (LabelNotFound lbl)"
  by (induction xs arbitrary: n) auto


section \<open>Constant folding, instruction by instruction\<close>

lemma foldAll_list_all2:
  "foldAll xs = Some ys \<Longrightarrow> list_all2 (\<lambda>x y. foldInstr x = Some y) xs ys"
  by (induction xs arbitrary: ys) (auto split: option.splits)

lemma foldAll_None_iff: "foldAll xs = None \<longleftrightarrow> (\<exists>i \<in> set xs. foldInstr i = None)"
  by (induction xs) (auto split: option.splits)

lemma foldAll_length: "foldAll xs = Some ys \<Longrightarrow> length ys = length xs"
  by (drule foldAll_list_all2) (simp add: list_all2_lengthD)

lemma foldAll_nth:
  assumes "foldAll xs = Some ys" and "k < length xs"
  shows "foldInstr (xs ! k) = Some (ys ! k)"
  using list_all2_nthD [OF foldAll_list_all2 [OF assms(1)] assms(2)] by simp

lemma foldAll_member:
  assumes "foldAll xs = Some ys" and "x \<in> set xs"
  obtains y where "foldInstr x = Some y" and "y \<in> set ys"
proof -
  from assms(2) obtain k where k: "k < length xs" "xs ! k = x"
    by (auto simp: in_set_conv_nth)
  with assms(1) have "foldInstr x = Some (ys ! k)" by (auto dest: foldAll_nth)
  moreover have "ys ! k \<in> set ys" using k(1) foldAll_length [OF assms(1)] by simp
  ultimately show ?thesis by (rule that)
qed

lemma foldInstr_result: "foldInstr i = Some i' \<Longrightarrow> result i' = result i"
  by (auto simp: foldInstr_def Let_def split: if_splits option.splits)

lemma foldInstr_other:
  "itype i \<noteq> BIN_OP \<Longrightarrow> itype i \<noteq> UN_OP \<Longrightarrow> foldInstr i = Some i"
  by (simp add: foldInstr_def)

lemma foldInstr_itype:
  "foldInstr i = Some i' \<Longrightarrow>
   (itype i' = ASSIGN \<or> itype i' = BIN_OP \<or> itype i' = UN_OP
    \<longleftrightarrow> itype i = ASSIGN \<or> itype i = BIN_OP \<or> itype i = UN_OP)"
  by (auto simp: foldInstr_def Let_def split: if_splits option.splits)

lemma optimize_None_iff:
  "optimize p = None \<longleftrightarrow> (\<exists>i \<in> set (instructions p). foldInstr i = None)"
proof -
  have "optimize p = None \<longleftrightarrow> foldAll (instructions p) = None"
    by (simp add: optimize_def foldConstants_def split: option.splits)
  then show ?thesis by (simp add: foldAll_None_iff)
qed

section \<open>Interpreter: operands and destinations\<close>

text \<open>
  Claim C1.  The claim says that a Temporary operand reads as its current store value and
  that the result of a BinaryOp or UnaryOp is written into the destination's slot, so that
  reading the destination afterwards returns the result.  \<open>getValue\<close> and \<open>setValue\<close>
  test \<open>isVar\<close> only: a write to a Temporary is dropped and a Temporary reads as 0.
  For \<open>t0 = 2 + 3\<close> the interpreter object is unchanged by the instruction, \<open>t0\<close> then
  reads as 0, and the program \<open>t0 = 2 + 3; print(t0)\<close> prints 0 where the claim gives 5.
  The code generator puts the result of every binary, unary and call expression into a
  Temporary.
\<close>

theorem executeBinOp_temporary_result_lost:
  "executeBinOp (createBinOp (Operand_named ''t0'' OT_TEMP) ADD (Operand_int 2) (Operand_int 3)) s
     = Inr s
   \<and> getValue s (Operand_named ''t0'' OT_TEMP) = Inr 0
   \<and> exec_result (execute
        \<lparr>instructions =
           [createBinOp (Operand_named ''t0'' OT_TEMP) ADD (Operand_int 2) (Operand_int 3),
            createPrint (Operand_named ''t0'' OT_TEMP)],
         variableTypes = Map.empty, symbolTable = Map.empty\<rparr> s) = Some (True, [''0''])"
proof -
  have a: "executeBinOp
      (createBinOp (Operand_named ''t0'' OT_TEMP) ADD (Operand_int 2) (Operand_int 3)) s = Inr s"
    by (simp add: instr_defs exec_defs)
  have b: "getValue s (Operand_named ''t0'' OT_TEMP) = Inr 0"
    by (simp add: instr_defs exec_defs)
  have c: "exec_result (execute
        \<lparr>instructions =
           [createBinOp (Operand_named ''t0'' OT_TEMP) ADD (Operand_int 2) (Operand_int 3),
            createPrint (Operand_named ''t0'' OT_TEMP)],
         variableTypes = Map.empty, symbolTable = Map.empty\<rparr> s) = Some (True, [''0''])"
    apply (simp add: execute_def)
    apply (subst executeLoop.simps, simp add: instr_defs exec_defs to_string_defs)
    apply (subst executeLoop.simps, simp add: instr_defs exec_defs to_string_defs)
    apply (subst executeLoop.simps, simp add: exec_result_def getOutput_def)
    done
  from a b c show ?thesis by blast
qed

text \<open>The same on a freshly constructed interpreter.\<close>

theorem executeBinOp_temporary_result_lost_witness:
  "executeBinOp (createBinOp (Operand_named ''t0'' OT_TEMP) ADD (Operand_int 2) (Operand_int 3))
     Interpreter_new = Inr Interpreter_new
   \<and> getValue Interpreter_new (Operand_named ''t0'' OT_TEMP) = Inr 0
   \<and> exec_result (execute
        \<lparr>instructions =
           [createBinOp (Operand_named ''t0'' OT_TEMP) ADD (Operand_int 2) (Operand_int 3),
            createPrint (Operand_named ''t0'' OT_TEMP)],
         variableTypes = Map.empty, symbolTable = Map.empty\<rparr> Interpreter_new)
       = Some (True, [''0''])"
  by (rule executeBinOp_temporary_result_lost)

section \<open>End to end: declaration, addition, print\<close>

lemma scenarioA_instructions:
  "instructions scenarioA_tac =
     [createAssign (Operand_named ''a'' OT_VAR) (Operand_int 2),
      createAssign (Operand_named ''b'' OT_VAR) (Operand_int 3),
      createBinOp (Operand_named ''t0'' OT_TEMP) ADD
        (Operand_named ''a'' OT_VAR) (Operand_named ''b'' OT_VAR),
      createPrint (Operand_named ''t0'' OT_TEMP)]"
  by (simp add: scenarioA_tac_def scenarioA_def gen_defs to_string_defs)

lemma scenarioA_variableTypes:
  "variableTypes scenarioA_tac v = (if v = ''a'' \<or> v = ''b'' then Some 0 else None)"
  by (simp add: scenarioA_tac_def scenarioA_def gen_defs to_string_defs)

lemma scenarioA_optimize: "optimize scenarioA_tac = Some scenarioA_tac"
  by (simp add: opt_defs Let_def scenarioA_instructions instr_defs isConst_def str_def)

lemma scenarioA_run:
  "exec_result (optimizeAndExecute scenarioA_tac s) = Some (True, [''0''])"
  apply (simp add: optimizeAndExecute_def scenarioA_optimize execute_def scenarioA_variableTypes)
  apply (subst executeLoop.simps,
      simp add: scenarioA_instructions instr_defs exec_defs to_string_defs)
  apply (subst executeLoop.simps,
      simp add: scenarioA_instructions instr_defs exec_defs to_string_defs)
  apply (subst executeLoop.simps,
      simp add: scenarioA_instructions instr_defs exec_defs to_string_defs)
  apply (subst executeLoop.simps,
      simp add: scenarioA_instructions instr_defs exec_defs to_string_defs)
  apply (subst executeLoop.simps,
      simp add: scenarioA_instructions exec_result_def getOutput_def)
  done

text \<open>
  Claim C2 as stated fails: \<open>optimize\<close> returns the instruction list unchanged, so the
  instruction at index 2 is still the BinaryOp \<open>t0 = a + b\<close> (its operands are the
  variables \<open>a\<close> and \<open>b\<close>, not constants, and there is no constant propagation), and
  the run of the optimized program prints 0, not 5.
\<close>

theorem scenarioA_not_folded_counterexample:
  "map_option instructions (optimize scenarioA_tac) = Some (instructions scenarioA_tac)
   \<and> instructions scenarioA_tac ! 2 =
       createBinOp (Operand_named ''t0'' OT_TEMP) ADD
         (Operand_named ''a'' OT_VAR) (Operand_named ''b'' OT_VAR)
   \<and> exec_result (optimizeAndExecute scenarioA_tac Interpreter_new) = Some (True, [''0''])"
  by (simp add: scenarioA_optimize scenarioA_instructions scenarioA_run)

text \<open>
  Claim C2, amended.  For the program generated from \<open>int a = 2; int b = 3; print(a + b);\<close>
  the TAC contains exactly one BinaryOp(ADD) instruction, \<open>t0 = a + b\<close>; \<open>optimize\<close>
  returns the program as it is (nothing is folded or removed); and \<open>execute\<close> on the
  optimized program succeeds with exactly one output line.
\<close>

theorem scenarioA_pipeline:
  "filter (\<lambda>i. itype i = BIN_OP \<and> binOp i = ADD) (instructions scenarioA_tac) =
     [createBinOp (Operand_named ''t0'' OT_TEMP) ADD
        (Operand_named ''a'' OT_VAR) (Operand_named ''b'' OT_VAR)]
   \<and> optimize scenarioA_tac = Some scenarioA_tac
   \<and> (\<exists>line. exec_result (optimizeAndExecute scenarioA_tac s) = Some (True, [line]))"
  by (simp add: scenarioA_optimize scenarioA_run) (simp add: scenarioA_instructions instr_defs)

section \<open>Constant folding against the interpreter\<close>




text \<open>
  The division without a value: folding \<open>x = INT_MIN / -1\<close> has no result, so
  \<open>optimize\<close> does not return on a program that holds it, and neither does \<open>execute\<close>.
\<close>

lemma undefined_division_no_result:
  "foldInstr (createBinOp (Operand_named ''x'' OT_VAR) DIV (Operand_int INT_MIN)
       (Operand_int (- 1))) = None"
  "optimize \<lparr>instructions =
       [createBinOp (Operand_named ''x'' OT_VAR) DIV (Operand_int INT_MIN) (Operand_int (- 1))],
     variableTypes = Map.empty, symbolTable = Map.empty\<rparr> = None"
  "execute \<lparr>instructions =
       [createBinOp (Operand_named ''x'' OT_VAR) DIV (Operand_int INT_MIN) (Operand_int (- 1))],
     variableTypes = Map.empty, symbolTable = Map.empty\<rparr> s = None"
proof -
  show "foldInstr (createBinOp (Operand_named ''x'' OT_VAR) DIV (Operand_int INT_MIN)
       (Operand_int (- 1))) = None"
    by (simp add: foldInstr_def instr_defs isConst_def c_div_def)
  then show "optimize \<lparr>instructions =
       [createBinOp (Operand_named ''x'' OT_VAR) DIV (Operand_int INT_MIN) (Operand_int (- 1))],
     variableTypes = Map.empty, symbolTable = Map.empty\<rparr> = None"
    by (simp add: optimize_None_iff)
  show "execute \<lparr>instructions =
       [createBinOp (Operand_named ''x'' OT_VAR) DIV (Operand_int INT_MIN) (Operand_int (- 1))],
     variableTypes = Map.empty, symbolTable = Map.empty\<rparr> s = None"
    apply (simp add: execute_def)
    apply (subst executeLoop.simps, simp add: instr_defs exec_defs c_div_def)
    done
qed

section \<open>Division and modulo by zero\<close>



text \<open>
  The second half of the scenario, from \<open>execute\<close>: \<open>d = 0; t0 = 5 / d; z = t0\<close>
  fails, optimized or not, and prints nothing.
\<close>

lemma scenarioC_runtime_fails:
  "exec_result (execute scenarioC_runtime s) = Some (False, [])"
  "exec_result (optimizeAndExecute scenarioC_runtime s) = Some (False, [])"
   apply (simp add: execute_def scenarioC_runtime_def divByVariable_def)
   apply (subst executeLoop.simps, simp add: instr_defs exec_defs to_string_defs)
   apply (subst executeLoop.simps,
      simp add: instr_defs exec_defs to_string_defs exec_result_def getOutput_def)
  apply (simp add: optimizeAndExecute_def execute_def scenarioC_runtime_def divByVariable_def
      opt_defs instr_defs isConst_def str_def)
  apply (subst executeLoop.simps, simp add: instr_defs exec_defs to_string_defs)
  apply (subst executeLoop.simps,
      simp add: instr_defs exec_defs to_string_defs exec_result_def getOutput_def)
  done

section \<open>Unresolved jump targets\<close>

text \<open>
  Claim C5 as stated fails: labels are resolved by \<open>findLabel\<close> when a jump is taken,
  not when execution starts.  In \<open>return 0; goto nowhere\<close> no Label is named
  \<open>nowhere\<close>, yet \<open>execute\<close> returns true: the jump is never reached.
\<close>

theorem unreached_dangling_goto_counterexample:
  "findLabel unreachedDanglingGoto ''nowhere'' = Inl (LabelNotFound ''nowhere'')
   \<and> exec_result (execute unreachedDanglingGoto Interpreter_new) = Some (True, [])"
  apply (simp add: unreachedDanglingGoto_def findLabel_def instr_defs execute_def
      Interpreter_new_def)
  apply (subst executeLoop.simps, simp add: exec_defs exec_result_def getOutput_def)
  done

text \<open>
  Claim C5, amended.  A Goto, or an IfGoto whose condition reads as 0, whose target names
  no Label instruction of the program is a fatal "label not found" error when execution
  reaches that instruction: executing it throws, and the loop of \<open>execute\<close>, arriving at
  it, returns false.  Nothing is checked at execution start, and a jump that is never taken
  does not make \<open>execute\<close> fail.
\<close>

theorem dangling_jump_fails_when_taken:
  assumes "k < length (instructions p)" and "instructions p ! k = i" and "pc s = int k"
    and "\<forall>j \<in> set (instructions p). \<not> (itype j = LABEL \<and> label j = label i)"
    and "itype i = GOTO \<or> itype i = IF_GOTO \<and> getValue s (op1 i) = Inr 0"
  shows "executeInstr p i s = Inl (LabelNotFound (label i)) \<and>
         executeLoop p s = Some (False, s)"
proof -
  have "findLabel p (label i) = Inl (LabelNotFound (label i))"
    unfolding findLabel_def using assms(4) by (rule findLabelFrom_missing)
  then have e: "executeInstr p i s = Inl (LabelNotFound (label i))"
    using assms(5) by (auto simp: executeInstr_def)
  then have "executeInstr p (instructions p ! k) s = Inl (LabelNotFound (label i))"
    using assms(2) by simp
  with assms(3,1) have "executeLoop p s = Some (False, s)"
    by (rule executeLoop_throw) simp
  with e show ?thesis by simp
qed

theorem dangling_jump_fails_when_taken_witness:
  "(0::nat) < length (instructions danglingGoto)
   \<and> pc Interpreter_new = int 0
   \<and> itype (instructions danglingGoto ! 0) = GOTO
   \<and> label (instructions danglingGoto ! 0) = ''nowhere''
   \<and> list_all (\<lambda>j. itype j \<noteq> LABEL) (instructions danglingGoto)
   \<and> executeInstr danglingGoto (instructions danglingGoto ! 0) Interpreter_new
        = Inl (LabelNotFound ''nowhere'')
   \<and> execute danglingGoto Interpreter_new = Some (False, Interpreter_new)"
  using dangling_jump_fails_when_taken
    [of 0 danglingGoto "instructions danglingGoto ! 0" Interpreter_new]
  by (simp add: danglingGoto_def Interpreter_new_def instr_defs execute_def)

section \<open>Dead code elimination keeps what is observed\<close>

lemma fold_insert_keeps: "x \<in> u \<Longrightarrow> x \<in> fold (\<lambda>arg u. insert (str arg) u) as u"
  by (induction as arbitrary: u) auto

lemma markUsed_keeps: "x \<in> u \<Longrightarrow> x \<in> markUsed i u"
  by (simp add: markUsed_def fold_insert_keeps)

lemma fold_markInstr_keeps: "x \<in> fst acc \<Longrightarrow> x \<in> fst (fold markInstr xs acc)"
  by (induction xs arbitrary: acc) (auto simp: markInstr_def markUsed_keeps)

lemma reader_marks_used:
  assumes "j \<in> set xs" and "itype j = PRINT \<or> itype j = RETURN \<or> itype j = IF_GOTO"
  shows "str (op1 j) \<in> fst (fold markInstr xs acc)"
  using assms
proof (induction xs arbitrary: acc)
  case Nil
  then show ?case by simp
next
  case (Cons x xs)
  show ?case
  proof (cases "j = x")
    case True
    with Cons.prems(2) have "str (op1 j) \<in> fst (markInstr x acc)"
      by (auto simp: markInstr_def markUsed_def)
    then show ?thesis by (simp add: fold_markInstr_keeps)
  next
    case False
    with Cons show ?thesis by simp
  qed
qed

lemma observed_not_eliminated:
  assumes "i \<in> set (instructions p)" and "j \<in> set (instructions p)"
    and "itype j = PRINT \<or> itype j = RETURN \<or> itype j = IF_GOTO"
    and "str (op1 j) = str (result i)"
  shows "i \<in> set (instructions (eliminateDeadCode p))"
proof -
  have "str (result i) \<in> fst (collectVars (instructions p))"
    unfolding collectVars_def using reader_marks_used [OF assms(2,3)] assms(4) by simp
  then have "\<not> isDead (fst (collectVars (instructions p))) (snd (collectVars (instructions p))) i"
    by (simp add: isDead_def)
  with assms(1) show ?thesis
    by (simp add: eliminateDeadCode_def Let_def)
qed

text \<open>
  Claim C6.  If the destination name of an instruction \<open>i\<close> of a program is the source
  operand of some Print, Return or IfGoto instruction \<open>j\<close> of that program, then dead
  code elimination keeps \<open>i\<close>; and in \<open>optimize\<close>, where the pass runs on the folded
  program, \<open>i\<close> as left by constant folding is in the program that \<open>optimize\<close> returns.
\<close>

theorem dce_keeps_observed_destinations:
  assumes "i \<in> set (instructions p)" and "j \<in> set (instructions p)"
    and "itype j = PRINT \<or> itype j = RETURN \<or> itype j = IF_GOTO"
    and "str (op1 j) = str (result i)"
  shows "i \<in> set (instructions (eliminateDeadCode p)) \<and>
         (optimize p = Some q \<longrightarrow>
            (\<exists>i'. foldInstr i = Some i' \<and> i' \<in> set (instructions q)))"
proof (intro conjI impI)
  show "i \<in> set (instructions (eliminateDeadCode p))"
    using assms by (rule observed_not_eliminated)
next
  assume "optimize p = Some q"
  then obtain f where f: "foldConstants p = Some f" and q: "q = eliminateDeadCode f"
    by (auto simp: optimize_def split: option.splits)
  from f have a: "foldAll (instructions p) = Some (instructions f)"
    by (auto simp: foldConstants_def split: option.splits)
  from a assms(1) obtain i' where i': "foldInstr i = Some i'" "i' \<in> set (instructions f)"
    by (rule foldAll_member)
  from a assms(2) obtain j' where j': "foldInstr j = Some j'" "j' \<in> set (instructions f)"
    by (rule foldAll_member)
  have "foldInstr j = Some j" using assms(3) by (auto simp: foldInstr_other)
  with j' have j: "j \<in> set (instructions f)" by simp
  have "str (op1 j) = str (result i')"
    using assms(4) foldInstr_result [OF i'(1)] by simp
  with i'(2) j assms(3) have "i' \<in> set (instructions (eliminateDeadCode f))"
    by (rule observed_not_eliminated)
  with i'(1) q show "\<exists>i'. foldInstr i = Some i' \<and> i' \<in> set (instructions q)" by blast
qed

theorem dce_keeps_observed_destinations_witness:
  "instructions liveTemporary ! 0 \<in> set (instructions liveTemporary)
   \<and> instructions liveTemporary ! 1 \<in> set (instructions liveTemporary)
   \<and> itype (instructions liveTemporary ! 1) = PRINT
   \<and> str (op1 (instructions liveTemporary ! 1)) = str (result (instructions liveTemporary ! 0))
   \<and> instructions liveTemporary ! 0 \<in> set (instructions (eliminateDeadCode liveTemporary))
   \<and> optimize liveTemporary = Some liveTemporary
   \<and> foldInstr (instructions liveTemporary ! 0) = Some (instructions liveTemporary ! 0)"
  using dce_keeps_observed_destinations
    [where i = "instructions liveTemporary ! 0" and p = liveTemporary
       and j = "instructions liveTemporary ! 1" and q = liveTemporary]
  by (simp add: liveTemporary_def instr_defs str_def isConst_def opt_defs)

section \<open>What the optimizer leaves alone\<close>

lemma filter_foldAll:
  "foldAll xs = Some ys \<Longrightarrow>
   filter (\<lambda>i. itype i \<noteq> ASSIGN \<and> itype i \<noteq> BIN_OP \<and> itype i \<noteq> UN_OP) ys
   = filter (\<lambda>i. itype i \<noteq> ASSIGN \<and> itype i \<noteq> BIN_OP \<and> itype i \<noteq> UN_OP) xs"
proof (induction xs arbitrary: ys)
  case Nil
  then show ?case by simp
next
  case (Cons x xs)
  from Cons.prems obtain x' ys' where x': "foldInstr x = Some x'"
    and ys': "foldAll xs = Some ys'" and ys: "ys = x' # ys'"
    by (auto split: option.splits)
  note IH = Cons.IH [OF ys']
  show ?case
  proof (cases "itype x = ASSIGN \<or> itype x = BIN_OP \<or> itype x = UN_OP")
    case True
    then have "itype x' = ASSIGN \<or> itype x' = BIN_OP \<or> itype x' = UN_OP"
      by (simp only: foldInstr_itype [OF x'])
    with True IH ys show ?thesis by auto
  next
    case False
    then have "foldInstr x = Some x" by (simp add: foldInstr_other)
    with x' have "x' = x" by simp
    with False IH ys show ?thesis by simp
  qed
qed

lemma filter_not_dead:
  "filter (\<lambda>i. itype i \<noteq> ASSIGN \<and> itype i \<noteq> BIN_OP \<and> itype i \<noteq> UN_OP)
     (filter (\<lambda>i. \<not> isDead u a i) xs)
   = filter (\<lambda>i. itype i \<noteq> ASSIGN \<and> itype i \<noteq> BIN_OP \<and> itype i \<noteq> UN_OP) xs"
  by (induction xs) (auto simp: isDead_def)

text \<open>
  Claim C8.  The instructions that are not Assign, BinaryOp or UnaryOp (so every Label,
  Goto, IfGoto, Print, Return, Call and Nop) are the same, in the same order, in the
  program constant folding returns, in the program dead code elimination returns, and in
  the program \<open>optimize\<close> returns, as in the input; and each of the three leaves the
  variable-type table unchanged.  Dead code elimination always returns; constant folding
  and \<open>optimize\<close> return for every program, except one that holds a constant division
  or modulo without a value (\<open>INT_MIN\<close> by \<open>-1\<close>), on which folding has no result.
\<close>

theorem optimize_frame:
  "(foldConstants p = Some q \<longrightarrow>
      filter (\<lambda>i. itype i \<noteq> ASSIGN \<and> itype i \<noteq> BIN_OP \<and> itype i \<noteq> UN_OP) (instructions q)
      = filter (\<lambda>i. itype i \<noteq> ASSIGN \<and> itype i \<noteq> BIN_OP \<and> itype i \<noteq> UN_OP)
          (instructions p)
      \<and> variableTypes q = variableTypes p)
   \<and> filter (\<lambda>i. itype i \<noteq> ASSIGN \<and> itype i \<noteq> BIN_OP \<and> itype i \<noteq> UN_OP)
        (instructions (eliminateDeadCode p))
      = filter (\<lambda>i. itype i \<noteq> ASSIGN \<and> itype i \<noteq> BIN_OP \<and> itype i \<noteq> UN_OP)
          (instructions p)
   \<and> variableTypes (eliminateDeadCode p) = variableTypes p
   \<and> (optimize p = Some r \<longrightarrow>
      filter (\<lambda>i. itype i \<noteq> ASSIGN \<and> itype i \<noteq> BIN_OP \<and> itype i \<noteq> UN_OP) (instructions r)
      = filter (\<lambda>i. itype i \<noteq> ASSIGN \<and> itype i \<noteq> BIN_OP \<and> itype i \<noteq> UN_OP)
          (instructions p)
      \<and> variableTypes r = variableTypes p)
   \<and> (optimize p = None \<longleftrightarrow> (\<exists>i \<in> set (instructions p). foldInstr i = None))"
proof -
  let ?keep = "\<lambda>i. itype i \<noteq> ASSIGN \<and> itype i \<noteq> BIN_OP \<and> itype i \<noteq> UN_OP"
  have a: "filter ?keep (instructions f) = filter ?keep (instructions p)
      \<and> variableTypes f = variableTypes p"
    if "foldConstants p = Some f" for f
  proof -
    from that obtain ys where ys: "foldAll (instructions p) = Some ys"
      and f: "f = p\<lparr>instructions := ys\<rparr>"
      by (auto simp: foldConstants_def split: option.splits)
    from filter_foldAll [OF ys] f show ?thesis by simp
  qed
  have b: "filter ?keep (instructions (eliminateDeadCode f)) = filter ?keep (instructions f)"
    for f
    by (simp add: eliminateDeadCode_def Let_def filter_not_dead del: filter_filter)
  have c: "variableTypes (eliminateDeadCode f) = variableTypes f" for f
    by (simp add: eliminateDeadCode_def Let_def)
  have d: "filter ?keep (instructions r) = filter ?keep (instructions p)
      \<and> variableTypes r = variableTypes p"
    if "optimize p = Some r"
  proof -
    from that obtain f where f: "foldConstants p = Some f" and r: "r = eliminateDeadCode f"
      by (auto simp: optimize_def split: option.splits)
    from a [OF f] b [of f] c [of f] r show ?thesis by simp
  qed
  from a [of q] b [of p] c [of p] d optimize_None_iff [of p] show ?thesis by blast
qed

theorem optimize_frame_witness:
  "foldConstants frameExample = Some frameExample_folded
   \<and> optimize frameExample = Some frameExample_optimized
   \<and> filter (\<lambda>i. itype i \<noteq> ASSIGN \<and> itype i \<noteq> BIN_OP \<and> itype i \<noteq> UN_OP)
        (instructions frameExample)
      = instructions frameExample_optimized
   \<and> filter (\<lambda>i. itype i \<noteq> ASSIGN \<and> itype i \<noteq> BIN_OP \<and> itype i \<noteq> UN_OP)
        (instructions frameExample_folded)
      = instructions frameExample_optimized
   \<and> variableTypes frameExample_optimized = variableTypes frameExample"
  using optimize_frame
    [where p = frameExample and q = frameExample_folded and r = frameExample_optimized]
  by (simp add: frameExample_def frameExample_folded_def frameExample_optimized_def
        instr_defs isConst_def str_def opt_defs to_string_defs Let_def)

section \<open>Interpreter: a run depends on the program only\<close>

text \<open>
  Claim C9.  \<open>execute\<close> clears the variable store, the output log and the program
  counter on entry, so whatever the interpreter object held before, two calls on the same
  program agree: both return the same boolean with the same output list (indeed the same
  object state), or neither returns.
\<close>

theorem execute_self_resetting: "execute p s1 = execute p s2"
  by (cases s1, cases s2) (simp add: execute_def)

section \<open>Semantic analysis: errors accumulate\<close>

lemma errors_push_warning [simp]: "errors (push_warning m s) = errors s"
  by (simp add: push_warning_def)

lemma errors_push_error [simp]: "errors (push_error m s) = errors s @ [m]"
  by (simp add: push_error_def)

lemma visitExpression_errors_prefix:
  "prefix (errors s) (errors (snd (visitExpression e s)))"
  "prefix (errors s) (errors (snd (visitBinExpr l r bop s)))"
  "prefix (errors s) (errors (snd (visitUnExpr e' uop s)))"
proof (induction e s and l r bop s and e' uop s
    rule: visitExpression_visitBinExpr_visitUnExpr.induct)
  case (4 nm s)
  then show ?case by (simp add: visitVarExpr_def split: option.splits)
next
  case (6 fn as s)
  then show ?case by (simp add: visitCallExpr_def)
next
  case (8 l r bop s)
  obtain lt s1 where l: "visitExpression l s = (lt, s1)" by (cases "visitExpression l s")
  obtain rt s2 where r: "visitExpression r s1 = (rt, s2)" by (cases "visitExpression r s1")
  have "prefix (errors s) (errors s1)" using 8(1) l by simp
  moreover have "prefix (errors s1) (errors s2)" using 8(2) [OF l [symmetric] refl] r by simp
  ultimately have "prefix (errors s) (errors s2)" by (rule prefix_order.trans)
  then show ?case using l r by (simp add: Let_def)
next
  case (9 e uop s)
  obtain t s1 where e: "visitExpression e s = (t, s1)" by (cases "visitExpression e s")
  have "prefix (errors s) (errors s1)" using 9 e by simp
  then show ?case using e by (simp add: Let_def)
qed simp_all

lemma fold_errors_prefix:
  assumes "\<And>x s. x \<in> set xs \<Longrightarrow> prefix (errors s) (errors (f x s))"
  shows "prefix (errors s) (errors (fold f xs s))"
  using assms
proof (induction xs arbitrary: s)
  case Nil
  then show ?case by simp
next
  case (Cons x xs)
  have "prefix (errors s) (errors (f x s))" using Cons.prems by simp
  moreover have "prefix (errors (f x s)) (errors (fold f xs (f x s)))"
    using Cons by simp
  ultimately show ?case by (simp add: prefix_order.trans)
qed

lemma visitDecl_errors_prefix:
  "prefix (errors s) (errors (visitDecl varName dataType initializer line s))"
proof -
  obtain t s1 where e: "visitExpression initializer s = (t, s1)"
    by (cases "visitExpression initializer s")
  have "prefix (errors s) (errors s1)"
    using visitExpression_errors_prefix(1) [of s initializer] e by simp
  then show ?thesis using e by (simp add: visitDecl_def Let_def)
qed

lemma visitAssign_errors_prefix:
  "prefix (errors s) (errors (visitAssign varName v s))"
proof -
  obtain t s1 where e: "visitExpression v s = (t, s1)" by (cases "visitExpression v s")
  have "prefix (errors s) (errors s1)"
    using visitExpression_errors_prefix(1) [of s v] e by simp
  then show ?thesis using e by (simp add: visitAssign_def Let_def)
qed

lemma checkCondition_errors_prefix:
  "prefix (errors s) (errors (checkCondition what cond s))"
proof -
  obtain t s1 where e: "visitExpression cond s = (t, s1)" by (cases "visitExpression cond s")
  have "prefix (errors s) (errors s1)"
    using visitExpression_errors_prefix(1) [of s cond] e by simp
  then show ?thesis using e by (simp add: checkCondition_def Let_def)
qed

lemma visitStatement_errors_prefix:
  "prefix (errors s) (errors (visitStatement st s))"
  "prefix (errors s) (errors (visitIfStatement c th el s))"
  "prefix (errors s) (errors (visitWhileStatement c' body s))"
  "prefix (errors s) (errors (visitForStatement init c'' u body' s))"
proof (induction st s and c th el s and c' body s and init c'' u body' s
    rule: visitStatement_visitIfStatement_visitWhileStatement_visitForStatement.induct)
  case (2 varName dataType initializer line s)
  then show ?case by (simp add: visitDecl_errors_prefix)
next
  case (3 varName v s)
  then show ?case by (simp add: visitAssign_errors_prefix)
next
  case (7 stmts s)
  then show ?case by (simp add: fold_errors_prefix)
next
  case (8 v s)
  then show ?case by (simp add: visitExpression_errors_prefix)
next
  case (9 v s)
  then show ?case by (simp add: visitExpression_errors_prefix)
next
  case (11 cond thenBranch elseBranch s)
  let ?s1 = "checkCondition ''If'' cond s"
  let ?s2 = "fold visitStatement thenBranch ?s1"
  have a: "prefix (errors s) (errors ?s1)" by (rule checkCondition_errors_prefix)
  have b: "prefix (errors ?s1) (errors ?s2)" using 11(1) by (simp add: fold_errors_prefix)
  have c: "prefix (errors ?s2) (errors (fold visitStatement elseBranch ?s2))"
    using 11(2) by (simp add: fold_errors_prefix)
  from a b c show ?case by (simp add: prefix_order.trans)
next
  case (12 cond body s)
  let ?s1 = "checkCondition ''While'' cond s"
  have a: "prefix (errors s) (errors ?s1)" by (rule checkCondition_errors_prefix)
  have b: "prefix (errors ?s1) (errors (fold visitStatement body ?s1))"
    using 12 by (simp add: fold_errors_prefix)
  from a b show ?case by (simp add: prefix_order.trans)
next
  case (13 init cond update body s)
  let ?s1 = "if init \<noteq> None then visitStatement init s else s"
  let ?s2 = "if cond \<noteq> None then checkCondition ''For'' cond ?s1 else ?s1"
  let ?s3 = "if update \<noteq> None then snd (visitExpression update ?s2) else ?s2"
  have a: "prefix (errors s) (errors ?s1)" using 13(1) by simp
  have b: "prefix (errors ?s1) (errors ?s2)" by (simp add: checkCondition_errors_prefix)
  have c: "prefix (errors ?s2) (errors ?s3)" by (simp add: visitExpression_errors_prefix)
  have d: "prefix (errors ?s3) (errors (fold visitStatement body ?s3))"
    using 13(2) [OF refl refl refl] by (simp add: fold_errors_prefix)
  have "prefix (errors s) (errors (fold visitStatement body ?s3))"
    using a b c d prefix_order.trans by blast
  then show ?case by (simp only: visitForStatement.simps Let_def)
qed simp_all

text \<open>
  Claim C7.  \<open>analyze\<close> accepts a program (returns true) exactly when the error list is
  empty afterwards.  A declaration of a name that is already in the symbol table appends
  one error and does nothing else (the initialiser is not visited, the symbol table and the
  warnings are unchanged); the statements after it are analyzed from that state, the error
  stays in the list whatever they add, and the program is rejected.
\<close>

theorem analyze_accumulates_errors:
  "(fst (analyze (Some p) s) \<longleftrightarrow> getErrors (snd (analyze (Some p) s)) = [])
   \<and> (sem_symbolTable s varName \<noteq> None \<longrightarrow>
        visitStatement (Some (DeclStmt varName dataType initializer line)) s
          = push_error (alreadyDefined varName) s
        \<and> snd (analyze (Some \<lparr>statements =
                   Some (DeclStmt varName dataType initializer line) # rest\<rparr>) s)
          = fold visitStatement rest (push_error (alreadyDefined varName) s)
        \<and> prefix (errors s @ [alreadyDefined varName])
             (getErrors (snd (analyze (Some \<lparr>statements =
                   Some (DeclStmt varName dataType initializer line) # rest\<rparr>) s)))
        \<and> \<not> fst (analyze (Some \<lparr>statements =
                   Some (DeclStmt varName dataType initializer line) # rest\<rparr>) s))"
proof (intro conjI impI)
  show "fst (analyze (Some p) s) \<longleftrightarrow> getErrors (snd (analyze (Some p) s)) = []"
    by (simp add: analyze_def getErrors_def Let_def)
next
  assume d: "sem_symbolTable s varName \<noteq> None"
  let ?decl = "Some (DeclStmt varName dataType initializer line)"
  let ?s1 = "push_error (alreadyDefined varName) s"
  show v: "visitStatement ?decl s = ?s1"
    using d by (simp add: visitDecl_def alreadyDefined_def)
  show a: "snd (analyze (Some \<lparr>statements = ?decl # rest\<rparr>) s) = fold visitStatement rest ?s1"
    using v by (simp add: analyze_def Let_def)
  have "prefix (errors ?s1) (errors (fold visitStatement rest ?s1))"
    by (rule fold_errors_prefix) (rule visitStatement_errors_prefix(1))
  then show p: "prefix (errors s @ [alreadyDefined varName])
      (getErrors (snd (analyze (Some \<lparr>statements = ?decl # rest\<rparr>) s)))"
    by (simp add: a getErrors_def)
  then have "getErrors (snd (analyze (Some \<lparr>statements = ?decl # rest\<rparr>) s)) \<noteq> []"
    by auto
  then show "\<not> fst (analyze (Some \<lparr>statements = ?decl # rest\<rparr>) s)"
    by (simp add: analyze_def getErrors_def Let_def)
qed

theorem analyze_accumulates_errors_witness:
  "sem_symbolTable afterDeclA ''a'' \<noteq> None
   \<and> getErrors afterDeclA = []
   \<and> getErrors (snd (analyze (Some \<lparr>statements =
          [Some (DeclStmt ''a'' ''int'' (Some (VarExpr ''z'')) 2), printY]\<rparr>) afterDeclA))
       = [alreadyDefined ''a'', ''Undefined variable '' @ [CHR 0x27] @ ''y'' @ [CHR 0x27]]
   \<and> \<not> fst (analyze (Some \<lparr>statements =
          [Some (DeclStmt ''a'' ''int'' (Some (VarExpr ''z'')) 2), printY]\<rparr>) afterDeclA)"
  using analyze_accumulates_errors
    [of "\<lparr>statements = []\<rparr>" afterDeclA "''a''" "''int''" "Some (VarExpr ''z'')" 2 "[printY]"]
  by (simp add: afterDeclA_def declA1_def printY_def visitDecl_def visitVarExpr_def
        SemanticAnalyzer_new_def push_error_def push_warning_def getErrors_def Let_def)

section \<open>Semantic analysis: the null program\<close>

text \<open>
  Claim C10.  \<open>analyze\<close> on a null program returns false and leaves the analyzer object
  as it was; on a fresh analyzer the error list and the warning list are both empty
  afterwards.
\<close>

theorem analyze_null_rejected_silently:
  "analyze None s = (False, s)
   \<and> getErrors (snd (analyze None SemanticAnalyzer_new)) = []
   \<and> getWarnings (snd (analyze None SemanticAnalyzer_new)) = []"
  by (simp add: analyze_def getErrors_def getWarnings_def SemanticAnalyzer_new_def)

end
